theory Spec2Isabelle
  imports Main "HOL-Library.Sublist" "HOL-Library.Multiset"
begin

section \<open>The DMS endpoint resource (aws/resource\_aws\_dms\_endpoint.go)\<close>

text \<open>
  A shallow embedding of the four operations of the resource (Create, Read, Update,
  Delete) and of the helper that copies a remote endpoint description into the local
  state. Go strings are byte lists, pointer-typed fields of the SDK structures are
  options (\<open>None\<close> is the nil pointer), a runtime panic is a value of its own, and each
  operation returns its result, the resource data it leaves behind and the remote calls
  it made, in order.
\<close>

subsection \<open>Strings\<close>

text \<open>
  \<open>strings.ToLower\<close> on the ASCII range: the letters A to Z move by 32, every other byte
  stays. (Go lowers by Unicode rune; runes outside ASCII are several bytes here and are
  left as they are.)
\<close>

definition toLowerChar :: "char \<Rightarrow> char" where
  "toLowerChar c =
     (let n = (of_char c :: nat) in if 65 \<le> n \<and> n \<le> 90 then char_of (n + 32) else c)"

definition ToLower :: "string \<Rightarrow> string" where
  "ToLower s = map toLowerChar s"

text \<open>
  \<open>strings.Split(s, sep)\<close> for a one-byte separator: the pieces of \<open>s\<close> between
  all occurrences of \<open>sep\<close>; a string without the separator is the only piece, so
  the result is never empty.
\<close>

fun Split :: "string \<Rightarrow> char \<Rightarrow> string list" where
  "Split [] sep = [[]]"
| "Split (c # cs) sep =
     (if c = sep then [] # Split cs sep
      else (case Split cs sep of [] \<Rightarrow> [[c]] | w # ws \<Rightarrow> (c # w) # ws))"

text \<open>\<open>strings.Contains(s, substr)\<close>: \<open>substr\<close> occurs in \<open>s\<close> as a contiguous block.\<close>

fun Contains :: "string \<Rightarrow> string \<Rightarrow> bool" where
  "Contains [] substr = (substr = [])"
| "Contains (c # cs) substr = (prefix substr (c # cs) \<or> Contains cs substr)"

subsection \<open>Errors, panics and results\<close>

datatype error =
    AwsErr string string  \<comment> \<open>an \<open>awserr.Error\<close>: its Code and its Message\<close>
  | OtherErr string       \<comment> \<open>any other error value\<close>

datatype panic = IndexOutOfRange | NilDereference

datatype outcome = Success | Failure error | Panicked panic

subsection \<open>The SDK structures\<close>

type_synonym tagmap = "string \<rightharpoonup> string"

record S3Settings =
  ServiceAccessRoleArn :: "string option"
  BucketFolder :: "string option"
  BucketName :: "string option"
  CompressionType :: "string option"
  CsvDelimiter :: "string option"
  CsvRowDelimiter :: "string option"

record DynamoDbSettings =
  Dynamo_ServiceAccessRoleArn :: "string option"

record CreateEndpointInput =
  C_EndpointIdentifier :: "string option"
  C_EndpointType :: "string option"
  C_EngineName :: "string option"
  C_Tags :: tagmap
  C_DynamoDbSettings :: "DynamoDbSettings option"
  C_S3Settings :: "S3Settings option"
  C_Password :: "string option"
  C_Port :: "int option"
  C_ServerName :: "string option"
  C_Username :: "string option"
  C_DatabaseName :: "string option"
  C_ExtraConnectionAttributes :: "string option"
  C_KmsKeyId :: "string option"
  C_SslMode :: "string option"
  C_CertificateArn :: "string option"

record ModifyEndpointInput =
  M_EndpointArn :: "string option"
  M_EndpointType :: "string option"
  M_CertificateArn :: "string option"
  M_DatabaseName :: "string option"
  M_EngineName :: "string option"
  M_DynamoDbSettings :: "DynamoDbSettings option"
  M_S3Settings :: "S3Settings option"
  M_ExtraConnectionAttributes :: "string option"
  M_Password :: "string option"
  M_Port :: "int option"
  M_ServerName :: "string option"
  M_SslMode :: "string option"
  M_Username :: "string option"

record Endpoint =
  E_CertificateArn :: "string option"
  E_EndpointArn :: "string option"
  E_EndpointIdentifier :: "string option"
  E_EndpointType :: "string option"
  E_EngineName :: "string option"
  E_DynamoDbSettings :: "DynamoDbSettings option"
  E_S3Settings :: "S3Settings option"
  E_DatabaseName :: "string option"
  E_ExtraConnectionAttributes :: "string option"
  E_Port :: "int option"
  E_ServerName :: "string option"
  E_Username :: "string option"
  E_KmsKeyId :: "string option"
  E_SslMode :: "string option"

subsection \<open>The resource data\<close>

text \<open>The attributes of the schema, by their names there.\<close>

record attributes =
  certificate_arn :: string
  database_name :: string
  endpoint_arn :: string
  endpoint_id :: string
  service_access_role :: string
  endpoint_type :: string
  engine_name :: string
  extra_connection_attributes :: string
  kms_key_arn :: string
  password :: string
  port :: int
  server_name :: string
  ssl_mode :: string
  tags :: tagmap
  username :: string
  bucket_name :: string
  bucket_folder :: string

text \<open>
  \<open>schema.ResourceData\<close>: the identity \<open>d.Id()\<close>, the prior state, and the values
  \<open>d.Get\<close> reads (the desired configuration over the state, then whatever \<open>d.Set\<close> wrote).
  \<open>d.HasChange(k)\<close> compares the two sides at \<open>k\<close>.
\<close>

record ResourceData =
  resourceId :: string
  state :: attributes
  current :: attributes

definition HasChange :: "ResourceData \<Rightarrow> (attributes \<Rightarrow> 'a) \<Rightarrow> bool" where
  "HasChange d key = (key (state d) \<noteq> key (current d))"

text \<open>\<open>d.GetOk(k)\<close> on a string attribute: the value, when it is not the zero value.\<close>

definition GetOk :: "string \<Rightarrow> string option" where
  "GetOk v = (if v = [] then None else Some v)"

text \<open>\<open>d.Set(k, p)\<close> with a pointer \<open>p\<close>: the value behind it, the zero value for nil.\<close>

definition setStr :: "string option \<Rightarrow> string" where
  "setStr p = (case p of None \<Rightarrow> [] | Some v \<Rightarrow> v)"

definition setInt :: "int option \<Rightarrow> int" where
  "setInt p = (case p of None \<Rightarrow> 0 | Some v \<Rightarrow> v)"

subsection \<open>The remote control plane\<close>

text \<open>
  The remote calls an operation makes, and the answers of the remote side. The
  answers are parameters of every operation: \<open>CreateEndpoint\<close> answers by attempt
  number, since Create may call it more than once. \<open>dmsSetTags\<close> (the tag
  synchronisation, defined in another file of the provider) is a call like the others:
  it is given the endpoint's ARN and both sides of the tag change.
  \<open>attemptsWithin t\<close> is the number of attempts the retry helper fits into the
  duration \<open>t\<close> (nanoseconds), which its backoff and the remote's latency decide.
\<close>

datatype call =
    CallCreateEndpoint CreateEndpointInput
  | CallDescribeEndpoints string
  | CallListTagsForResource string
  | CallModifyEndpoint ModifyEndpointInput
  | CallDeleteEndpoint string
  | CallSetTags string tagmap tagmap

record conn =
  CreateEndpoint :: "nat \<Rightarrow> CreateEndpointInput \<Rightarrow> error option"
  DescribeEndpoints :: "string \<Rightarrow> error + Endpoint list"
  ListTagsForResource :: "string \<Rightarrow> error + tagmap"
  ModifyEndpoint :: "ModifyEndpointInput \<Rightarrow> error option"
  DeleteEndpoint :: "string \<Rightarrow> error option"
  dmsSetTags :: "string \<Rightarrow> tagmap \<Rightarrow> tagmap \<Rightarrow> error option"
  attemptsWithin :: "nat \<Rightarrow> nat"

subsection \<open>Parsing the extra connection attributes of an s3 endpoint\<close>

text \<open>
  The body of the loop over the segments (the same in Create and in Update):
  \<open>vals := strings.Split(elem, "=")\<close>, then the chain of three tests on
  \<open>strings.ToLower(vals[0])\<close>, each branch reading \<open>vals[1]\<close>. An index that is not
  there is the panic of Go's bounds check.
\<close>

definition applyElem :: "S3Settings \<Rightarrow> string \<Rightarrow> panic + S3Settings" where
  "applyElem s elem =
     (case Split elem CHR ''='' of
        [] \<Rightarrow> Inl IndexOutOfRange
      | k # rest \<Rightarrow>
          if Contains (ToLower k) ''compressiontype'' then
            (case rest of [] \<Rightarrow> Inl IndexOutOfRange
                        | v # _ \<Rightarrow> Inr (s\<lparr>CompressionType := Some v\<rparr>))
          else if Contains (ToLower k) ''csvdelimiter'' then
            (case rest of [] \<Rightarrow> Inl IndexOutOfRange
                        | v # _ \<Rightarrow> Inr (s\<lparr>CsvDelimiter := Some v\<rparr>))
          else if Contains (ToLower k) ''csvrowdelimiter'' then
            (case rest of [] \<Rightarrow> Inl IndexOutOfRange
                        | v # _ \<Rightarrow> Inr (s\<lparr>CsvRowDelimiter := Some v\<rparr>))
          else Inr s)"

fun parseElems :: "S3Settings \<Rightarrow> string list \<Rightarrow> panic + S3Settings" where
  "parseElems s [] = Inr s"
| "parseElems s (elem # elems) =
     (case applyElem s elem of Inl p \<Rightarrow> Inl p | Inr s' \<Rightarrow> parseElems s' elems)"

definition parseExtraConnectionAttributes :: "S3Settings \<Rightarrow> string \<Rightarrow> panic + S3Settings" where
  "parseExtraConnectionAttributes s v =
     (let elems = Split v CHR '';'' in
      if length elems > 0 then parseElems s elems else Inr s)"

text \<open>
  The string Read writes back for an s3 endpoint:
  \<open>fmt.Sprintf("compressionType=%s;csvDelimiter=%s;csvRowDelimiter=%s", ...)\<close>.
\<close>

definition formatExtraConnectionAttributes :: "string \<Rightarrow> string \<Rightarrow> string \<Rightarrow> string" where
  "formatExtraConnectionAttributes ct cd crd =
     ''compressionType='' @ ct @ '';csvDelimiter='' @ cd @ '';csvRowDelimiter='' @ crd"

text \<open>
  The arguments of that call are \<open>*endpoint.S3Settings.CompressionType\<close>,
  \<open>*...CsvDelimiter\<close> and \<open>*...CsvRowDelimiter\<close>: each is dereferenced, and a nil
  pointer among them is a panic.
\<close>

definition s3ExtraConnectionAttributes :: "S3Settings \<Rightarrow> panic + string" where
  "s3ExtraConnectionAttributes s =
     (case CompressionType s of None \<Rightarrow> Inl NilDereference | Some ct \<Rightarrow>
     (case CsvDelimiter s of None \<Rightarrow> Inl NilDereference | Some cd \<Rightarrow>
     (case CsvRowDelimiter s of None \<Rightarrow> Inl NilDereference | Some crd \<Rightarrow>
        Inr (formatExtraConnectionAttributes ct cd crd))))"

subsection \<open>Create\<close>

text \<open>
  The defaults of the three extra variables in Create. The row delimiter is the Go
  literal \<open>"\\n"\<close>: a backslash followed by the letter n.
\<close>

definition defaultCsvRowDelimiter :: string where
  "defaultCsvRowDelimiter = [CHR 0x5C, CHR ''n'']"

definition createS3Settings :: "attributes \<Rightarrow> S3Settings" where
  "createS3Settings a =
     \<lparr> ServiceAccessRoleArn = Some (service_access_role a),
       BucketFolder = Some (bucket_folder a),
       BucketName = Some (bucket_name a),
       CompressionType = Some ''GZIP'',
       CsvDelimiter = Some '','',
       CsvRowDelimiter = Some defaultCsvRowDelimiter \<rparr>"

definition createBase :: "attributes \<Rightarrow> CreateEndpointInput" where
  "createBase a =
     \<lparr> C_EndpointIdentifier = Some (endpoint_id a),
       C_EndpointType = Some (endpoint_type a),
       C_EngineName = Some (engine_name a),
       C_Tags = tags a,
       C_DynamoDbSettings = None,
       C_S3Settings = None,
       C_Password = None,
       C_Port = None,
       C_ServerName = None,
       C_Username = None,
       C_DatabaseName = None,
       C_ExtraConnectionAttributes = None,
       C_KmsKeyId = None,
       C_SslMode = None,
       C_CertificateArn = None \<rparr>"

text \<open>
  The settings of an s3 endpoint in Create: the defaults, and over them what the extra
  connection attributes say, when \<open>d.GetOk\<close> finds some.
\<close>

definition createdS3Settings :: "attributes \<Rightarrow> panic + S3Settings" where
  "createdS3Settings a =
     (case GetOk (extra_connection_attributes a) of
        None \<Rightarrow> Inr (createS3Settings a)
      | Some v \<Rightarrow> parseExtraConnectionAttributes (createS3Settings a) v)"

text \<open>The request Create builds: the switch on the engine name, then the certificate.\<close>

definition createRequest :: "ResourceData \<Rightarrow> panic + CreateEndpointInput" where
  "createRequest d =
     (let a = current d;
          request = createBase a;
          cert = (\<lambda>r. r\<lparr>C_CertificateArn := GetOk (certificate_arn a)\<rparr>)
      in
      if engine_name a = ''dynamodb'' then
        Inr (cert (request\<lparr>C_DynamoDbSettings :=
               Some \<lparr>Dynamo_ServiceAccessRoleArn = Some (service_access_role a)\<rparr>\<rparr>))
      else if engine_name a = ''s3'' then
        (case createdS3Settings a of
           Inl p \<Rightarrow> Inl p
         | Inr s \<Rightarrow> Inr (cert (request\<lparr>C_S3Settings := Some s\<rparr>)))
      else
        Inr (cert (request
          \<lparr> C_Password := Some (password a),
            C_Port := Some (port a),
            C_ServerName := Some (server_name a),
            C_Username := Some (username a),
            C_DatabaseName := GetOk (database_name a),
            C_ExtraConnectionAttributes := GetOk (extra_connection_attributes a),
            C_KmsKeyId := GetOk (kms_key_arn a),
            C_SslMode := GetOk (ssl_mode a) \<rparr>)))"

text \<open>
  The function Create hands to the retry helper, given the answer of
  \<open>conn.CreateEndpoint\<close>: retryable for an \<open>awserr.Error\<close> whose code is
  \<open>AccessDeniedFault\<close>, not retryable for every other error, nil on success.
\<close>

datatype RetryError = RetryableError error | NonRetryableError error

definition createAttempt :: "error option \<Rightarrow> RetryError option" where
  "createAttempt answer =
     (case answer of
        None \<Rightarrow> None
      | Some err \<Rightarrow>
          (case err of
             AwsErr code msg \<Rightarrow>
               if code = ''AccessDeniedFault'' then Some (RetryableError err)
               else Some (NonRetryableError err)
           | OtherErr msg \<Rightarrow> Some (NonRetryableError err)))"

text \<open>
  Modelled from the spec: \<open>resource.Retry\<close>, the retry helper of the plugin SDK, is not
  among the sources. The spec has the call "retried for up to a fixed ceiling ... when
  the remote system reports a transient access-denial fault; any other remote error is
  non-retryable and aborts immediately", and a fault that outlasts the ceiling "surfaced
  as a terminal failure". The ceiling is a duration; the model counts the attempts that
  fit into it. \<open>RetryLoop n f i lastErr\<close> has \<open>n\<close> attempts left, has made \<open>i\<close>, and
  returns the error, if any, with the number of attempts made.
\<close>

fun RetryLoop :: "nat \<Rightarrow> (nat \<Rightarrow> RetryError option) \<Rightarrow> nat \<Rightarrow> error \<Rightarrow> error option \<times> nat" where
  "RetryLoop 0 f i lastErr = (Some lastErr, i)"
| "RetryLoop (Suc n) f i lastErr =
     (case f i of
        None \<Rightarrow> (None, Suc i)
      | Some (NonRetryableError e) \<Rightarrow> (Some e, Suc i)
      | Some (RetryableError e) \<Rightarrow> RetryLoop n f (Suc i) e)"

definition Retry :: "nat \<Rightarrow> (nat \<Rightarrow> RetryError option) \<Rightarrow> error option \<times> nat" where
  "Retry budget f = RetryLoop budget f 0 (OtherErr ''timeout'')"

text \<open>\<open>5*time.Minute\<close>, a \<open>time.Duration\<close>: nanoseconds.\<close>

definition Minute :: nat where
  "Minute = 60 * 1000000000"

definition createTimeout :: nat where
  "createTimeout = 5 * Minute"

subsection \<open>Read\<close>

definition setStateCommon :: "attributes \<Rightarrow> Endpoint \<Rightarrow> string \<Rightarrow> string \<Rightarrow> string \<Rightarrow> attributes" where
  "setStateCommon a e ident ty eng =
     a\<lparr> certificate_arn := setStr (E_CertificateArn e),
        endpoint_arn := setStr (E_EndpointArn e),
        endpoint_id := ident,
        endpoint_type := ToLower ty,
        engine_name := eng \<rparr>"

text \<open>
  \<open>resourceAwsDmsEndpointSetState\<close>. The identifier, the type and the engine name are
  dereferenced, and so are the three extra variables of an s3 endpoint that has
  settings (\<open>s3ExtraConnectionAttributes\<close>): a nil pointer there is a panic. The other fields go through \<open>d.Set\<close>, which
  takes nil as the zero value. The function has no error return of its own.
\<close>

definition resourceAwsDmsEndpointSetState :: "ResourceData \<Rightarrow> Endpoint \<Rightarrow> panic + ResourceData" where
  "resourceAwsDmsEndpointSetState d e =
     (case E_EndpointIdentifier e of
        None \<Rightarrow> Inl NilDereference
      | Some ident \<Rightarrow>
     (case E_EndpointType e of
        None \<Rightarrow> Inl NilDereference
      | Some ty \<Rightarrow>
     (case E_EngineName e of
        None \<Rightarrow> Inl NilDereference
      | Some eng \<Rightarrow>
          (let a = setStateCommon (current d) e ident ty eng in
           if eng = ''dynamodb'' then
             (case E_DynamoDbSettings e of
                Some s \<Rightarrow>
                  Inr (d\<lparr>resourceId := ident,
                         current := a\<lparr>service_access_role := setStr (Dynamo_ServiceAccessRoleArn s)\<rparr>\<rparr>)
              | None \<Rightarrow>
                  Inr (d\<lparr>resourceId := ident, current := a\<lparr>service_access_role := []\<rparr>\<rparr>))
           else if eng = ''s3'' then
             (case E_S3Settings e of
                Some s \<Rightarrow>
                  (case s3ExtraConnectionAttributes s of
                     Inl p \<Rightarrow> Inl p
                   | Inr extra \<Rightarrow>
                       Inr (d\<lparr>resourceId := ident,
                              current := a
                                \<lparr> service_access_role := setStr (ServiceAccessRoleArn s),
                                  bucket_folder := setStr (BucketFolder s),
                                  bucket_name := setStr (BucketName s),
                                  extra_connection_attributes := extra \<rparr>\<rparr>))
              | None \<Rightarrow>
                  Inr (d\<lparr>resourceId := ident,
                         current := a
                           \<lparr> service_access_role := [],
                             bucket_folder := [],
                             bucket_name := [],
                             extra_connection_attributes := [] \<rparr>\<rparr>))
           else
             Inr (d\<lparr>resourceId := ident,
                    current := a
                      \<lparr> database_name := setStr (E_DatabaseName e),
                        extra_connection_attributes := setStr (E_ExtraConnectionAttributes e),
                        port := setInt (E_Port e),
                        server_name := setStr (E_ServerName e),
                        username := setStr (E_Username e),
                        kms_key_arn := setStr (E_KmsKeyId e),
                        ssl_mode := setStr (E_SslMode e) \<rparr>\<rparr>)))))"

text \<open>
  \<open>resourceAwsDmsEndpointRead\<close>. The lookup is filtered by \<open>d.Id()\<close>. A
  \<open>ResourceNotFoundFault\<close> clears the identity and is no error; any other error is
  returned. Of a successful answer the first endpoint is taken, \<open>response.Endpoints[0]\<close>.
  After a panic the resource data is of no account; the model hands back what it was given.
\<close>

definition resourceAwsDmsEndpointRead :: "conn \<Rightarrow> ResourceData \<Rightarrow> outcome \<times> ResourceData \<times> call list" where
  "resourceAwsDmsEndpointRead c d =
     (let describe = CallDescribeEndpoints (resourceId d) in
      case DescribeEndpoints c (resourceId d) of
        Inl err \<Rightarrow>
          (case err of
             AwsErr code msg \<Rightarrow>
               if code = ''ResourceNotFoundFault''
               then (Success, d\<lparr>resourceId := []\<rparr>, [describe])
               else (Failure err, d, [describe])
           | OtherErr msg \<Rightarrow> (Failure err, d, [describe]))
      | Inr endpoints \<Rightarrow>
          (case endpoints of
             [] \<Rightarrow> (Panicked IndexOutOfRange, d, [describe])
           | e # _ \<Rightarrow>
               (case resourceAwsDmsEndpointSetState d e of
                  Inl p \<Rightarrow> (Panicked p, d, [describe])
                | Inr d1 \<Rightarrow>
                    (let arn = endpoint_arn (current d1);
                         list = CallListTagsForResource arn in
                     case ListTagsForResource c arn of
                       Inl err \<Rightarrow> (Failure err, d1, [describe, list])
                     | Inr tagList \<Rightarrow>
                         (Success, d1\<lparr>current := (current d1)\<lparr>tags := tagList\<rparr>\<rparr>,
                          [describe, list])))))"

text \<open>
  \<open>resourceAwsDmsEndpointCreate\<close>: the request, the retried call, then
  \<open>d.SetId\<close> and Read.
\<close>

definition resourceAwsDmsEndpointCreate :: "conn \<Rightarrow> ResourceData \<Rightarrow> outcome \<times> ResourceData \<times> call list" where
  "resourceAwsDmsEndpointCreate c d =
     (case createRequest d of
        Inl p \<Rightarrow> (Panicked p, d, [])
      | Inr request \<Rightarrow>
          (case Retry (attemptsWithin c createTimeout)
                  (\<lambda>i. createAttempt (CreateEndpoint c i request)) of
             (Some err, n) \<Rightarrow> (Failure err, d, replicate n (CallCreateEndpoint request))
           | (None, n) \<Rightarrow>
               (case resourceAwsDmsEndpointRead c (d\<lparr>resourceId := endpoint_id (current d)\<rparr>) of
                  (r, d', calls) \<Rightarrow> (r, d', replicate n (CallCreateEndpoint request) @ calls))))"

subsection \<open>Update\<close>

text \<open>
  \<open>if d.HasChange(k) { request.F = ...; hasChanges = true }\<close>, on the pair of the
  request and the flag.
\<close>

definition setIf :: "bool \<Rightarrow> (ModifyEndpointInput \<Rightarrow> ModifyEndpointInput) \<Rightarrow>
    ModifyEndpointInput \<times> bool \<Rightarrow> ModifyEndpointInput \<times> bool" where
  "setIf changed upd rh = (if changed then (upd (fst rh), True) else rh)"

definition modifyBase :: "attributes \<Rightarrow> ModifyEndpointInput" where
  "modifyBase a =
     \<lparr> M_EndpointArn = Some (endpoint_arn a),
       M_EndpointType = None,
       M_CertificateArn = None,
       M_DatabaseName = None,
       M_EngineName = None,
       M_DynamoDbSettings = None,
       M_S3Settings = None,
       M_ExtraConnectionAttributes = None,
       M_Password = None,
       M_Port = None,
       M_ServerName = None,
       M_SslMode = None,
       M_Username = None \<rparr>"

text \<open>The four attributes tested before the switch.\<close>

definition updateHead :: "ResourceData \<Rightarrow> ModifyEndpointInput \<times> bool" where
  "updateHead d =
     (let a = current d;
          rh = (modifyBase a, False);
          rh = setIf (HasChange d endpoint_type) (\<lambda>r. r\<lparr>M_EndpointType := Some (endpoint_type a)\<rparr>) rh;
          rh = setIf (HasChange d certificate_arn) (\<lambda>r. r\<lparr>M_CertificateArn := Some (certificate_arn a)\<rparr>) rh;
          rh = setIf (HasChange d database_name) (\<lambda>r. r\<lparr>M_DatabaseName := Some (database_name a)\<rparr>) rh;
          rh = setIf (HasChange d engine_name) (\<lambda>r. r\<lparr>M_EngineName := Some (engine_name a)\<rparr>) rh
      in rh)"

definition updateS3Settings :: "attributes \<Rightarrow> S3Settings" where
  "updateS3Settings a =
     \<lparr> ServiceAccessRoleArn = Some (service_access_role a),
       BucketFolder = Some (bucket_folder a),
       BucketName = Some (bucket_name a),
       CompressionType = None,
       CsvDelimiter = None,
       CsvRowDelimiter = None \<rparr>"

text \<open>The condition of the s3 branch: one of its four attributes changed.\<close>

definition s3SettingsChanged :: "ResourceData \<Rightarrow> bool" where
  "s3SettingsChanged d =
     (HasChange d service_access_role \<or> HasChange d bucket_name \<or>
      HasChange d bucket_folder \<or> HasChange d extra_connection_attributes)"

text \<open>
  The switch on the engine name. The result says whether the s3 branch left by
  \<open>goto DONE\<close>.
\<close>

definition updateEngine :: "ResourceData \<Rightarrow> ModifyEndpointInput \<times> bool \<Rightarrow>
    panic + ((ModifyEndpointInput \<times> bool) \<times> bool)" where
  "updateEngine d rh =
     (let a = current d in
      if engine_name a = ''dynamodb'' then
        Inr (setIf (HasChange d service_access_role)
               (\<lambda>r. r\<lparr>M_DynamoDbSettings :=
                  Some \<lparr>Dynamo_ServiceAccessRoleArn = Some (service_access_role a)\<rparr>\<rparr>) rh,
             False)
      else if engine_name a = ''s3'' then
        (if s3SettingsChanged d then
           (case parseExtraConnectionAttributes (updateS3Settings a) (extra_connection_attributes a) of
              Inl p \<Rightarrow> Inl p
            | Inr s \<Rightarrow> Inr (((fst rh)\<lparr>M_S3Settings := Some s\<rparr>, True), True))
         else Inr (rh, False))
      else
        Inr (setIf (HasChange d extra_connection_attributes)
               (\<lambda>r. r\<lparr>M_ExtraConnectionAttributes := Some (extra_connection_attributes a)\<rparr>) rh,
             False))"

text \<open>The five attributes tested after the switch.\<close>

definition updateTail :: "ResourceData \<Rightarrow> ModifyEndpointInput \<times> bool \<Rightarrow> ModifyEndpointInput \<times> bool" where
  "updateTail d rh =
     (let a = current d;
          rh = setIf (HasChange d password) (\<lambda>r. r\<lparr>M_Password := Some (password a)\<rparr>) rh;
          rh = setIf (HasChange d port) (\<lambda>r. r\<lparr>M_Port := Some (port a)\<rparr>) rh;
          rh = setIf (HasChange d server_name) (\<lambda>r. r\<lparr>M_ServerName := Some (server_name a)\<rparr>) rh;
          rh = setIf (HasChange d ssl_mode) (\<lambda>r. r\<lparr>M_SslMode := Some (ssl_mode a)\<rparr>) rh;
          rh = setIf (HasChange d username) (\<lambda>r. r\<lparr>M_Username := Some (username a)\<rparr>) rh
      in rh)"

text \<open>From the label \<open>DONE\<close> on; \<open>before\<close> are the calls made so far.\<close>

definition updateDone :: "conn \<Rightarrow> ResourceData \<Rightarrow> ModifyEndpointInput \<times> bool \<Rightarrow> call list \<Rightarrow>
    outcome \<times> ResourceData \<times> call list" where
  "updateDone c d rh before =
     (if snd rh then
        (case ModifyEndpoint c (fst rh) of
           Some err \<Rightarrow> (Failure err, d, before @ [CallModifyEndpoint (fst rh)])
         | None \<Rightarrow>
             (case resourceAwsDmsEndpointRead c d of
                (r, d', calls) \<Rightarrow> (r, d', before @ [CallModifyEndpoint (fst rh)] @ calls)))
      else (Success, d, before))"

definition resourceAwsDmsEndpointUpdate :: "conn \<Rightarrow> ResourceData \<Rightarrow> outcome \<times> ResourceData \<times> call list" where
  "resourceAwsDmsEndpointUpdate c d =
     (case updateEngine d (updateHead d) of
        Inl p \<Rightarrow> (Panicked p, d, [])
      | Inr (rh, jumped) \<Rightarrow>
          if jumped then updateDone c d rh []
          else
            (let rh' = updateTail d rh;
                 arn = endpoint_arn (current d);
                 sync = CallSetTags arn (tags (state d)) (tags (current d)) in
             if HasChange d tags then
               (case dmsSetTags c arn (tags (state d)) (tags (current d)) of
                  Some err \<Rightarrow> (Failure err, d, [sync])
                | None \<Rightarrow> updateDone c d rh' [sync])
             else updateDone c d rh' []))"

subsection \<open>Delete\<close>

definition resourceAwsDmsEndpointDelete :: "conn \<Rightarrow> ResourceData \<Rightarrow> outcome \<times> ResourceData \<times> call list" where
  "resourceAwsDmsEndpointDelete c d =
     (let arn = endpoint_arn (current d) in
      case DeleteEndpoint c arn of
        Some err \<Rightarrow> (Failure err, d, [CallDeleteEndpoint arn])
      | None \<Rightarrow> (Success, d, [CallDeleteEndpoint arn]))"

subsection \<open>The micro-format of the extra connection attributes, by position\<close>

text \<open>
  What the parser's index accesses amount to, said without \<open>Split\<close>. The key of a
  segment is the text before its first \<open>=\<close> (the whole segment when it has none);
  \<open>segValue\<close> is the text between the first \<open>=\<close> and the second (or the end of
  the segment); \<open>afterFirstEq\<close> is everything after the first \<open>=\<close>.
\<close>

definition segKey :: "string \<Rightarrow> string" where
  "segKey seg = takeWhile (\<lambda>c. c \<noteq> CHR ''='') seg"

definition afterFirstEq :: "string \<Rightarrow> string" where
  "afterFirstEq seg = tl (dropWhile (\<lambda>c. c \<noteq> CHR ''='') seg)"

definition segValue :: "string \<Rightarrow> string" where
  "segValue seg = takeWhile (\<lambda>c. c \<noteq> CHR ''='') (afterFirstEq seg)"

datatype extraField = FCompressionType | FCsvDelimiter | FCsvRowDelimiter

fun token :: "extraField \<Rightarrow> string" where
  "token FCompressionType = ''compressiontype''"
| "token FCsvDelimiter = ''csvdelimiter''"
| "token FCsvRowDelimiter = ''csvrowdelimiter''"

text \<open>A key names a field when, in lower case, it contains the field's token.\<close>

definition keyHas :: "string \<Rightarrow> extraField \<Rightarrow> bool" where
  "keyHas k f = Contains (ToLower k) (token f)"

definition recognized :: "string \<Rightarrow> bool" where
  "recognized k = (keyHas k FCompressionType \<or> keyHas k FCsvDelimiter \<or> keyHas k FCsvRowDelimiter)"

text \<open>The field a segment binds to: the first, in the order of the chain, that its key names.\<close>

definition bindsTo :: "string \<Rightarrow> extraField option" where
  "bindsTo seg =
     (if keyHas (segKey seg) FCompressionType then Some FCompressionType
      else if keyHas (segKey seg) FCsvDelimiter then Some FCsvDelimiter
      else if keyHas (segKey seg) FCsvRowDelimiter then Some FCsvRowDelimiter
      else None)"

fun setField :: "extraField \<Rightarrow> string \<Rightarrow> S3Settings \<Rightarrow> S3Settings" where
  "setField FCompressionType v s = s\<lparr>CompressionType := Some v\<rparr>"
| "setField FCsvDelimiter v s = s\<lparr>CsvDelimiter := Some v\<rparr>"
| "setField FCsvRowDelimiter v s = s\<lparr>CsvRowDelimiter := Some v\<rparr>"


definition bindSegment :: "S3Settings \<Rightarrow> string \<Rightarrow> S3Settings" where
  "bindSegment s seg = (case bindsTo seg of None \<Rightarrow> s | Some f \<Rightarrow> setField f (segValue seg) s)"

text \<open>Every segment with a recognized key has an \<open>=\<close>.\<close>

definition segmentsHaveValues :: "string \<Rightarrow> bool" where
  "segmentsHaveValues v =
     (\<forall>seg \<in> set (Split v CHR '';''). recognized (segKey seg) \<longrightarrow> CHR ''='' \<in> set seg)"



definition bindingSegments :: "extraField \<Rightarrow> string \<Rightarrow> string list" where
  "bindingSegments f v = filter (\<lambda>seg. bindsTo seg = Some f) (Split v CHR '';'')"








subsection \<open>Reading the results\<close>

definition callsOf :: "outcome \<times> ResourceData \<times> call list \<Rightarrow> call list" where
  "callsOf result = snd (snd result)"

definition dataOf :: "outcome \<times> ResourceData \<times> call list \<Rightarrow> ResourceData" where
  "dataOf result = fst (snd result)"

fun isCreateEndpoint :: "call \<Rightarrow> bool" where
  "isCreateEndpoint (CallCreateEndpoint request) = True"
| "isCreateEndpoint other = False"

fun isSetTags :: "call \<Rightarrow> bool" where
  "isSetTags (CallSetTags arn old new) = True"
| "isSetTags other = False"

definition createCallCount :: "call list \<Rightarrow> nat" where
  "createCallCount calls = length (filter isCreateEndpoint calls)"

text \<open>A result of the retried function that asks for another attempt.\<close>

definition retryable :: "RetryError option \<Rightarrow> bool" where
  "retryable x = (case x of Some (RetryableError e) \<Rightarrow> True | Some (NonRetryableError e) \<Rightarrow> False | None \<Rightarrow> False)"

text \<open>An answer of the remote side that is a fault of the access-denial class.\<close>

definition accessDenied :: "error option \<Rightarrow> bool" where
  "accessDenied answer =
     (case answer of
        Some (AwsErr code msg) \<Rightarrow> code = ''AccessDeniedFault''
      | Some (OtherErr msg) \<Rightarrow> False
      | None \<Rightarrow> False)"

text \<open>
  The two roles of the schema (\<open>endpoint_type\<close> is one of \<open>source\<close>, \<open>target\<close>), as
  the remote side returns them and as the state holds them.
\<close>

datatype role = Source | Target

fun remoteRole :: "role \<Rightarrow> string" where
  "remoteRole Source = ''SOURCE''"
| "remoteRole Target = ''TARGET''"

fun localRole :: "role \<Rightarrow> string" where
  "localRole Source = ''source''"
| "localRole Target = ''target''"

text \<open>No pointer that \<open>resourceAwsDmsEndpointSetState\<close> dereferences is nil.\<close>

definition dereferenceable :: "Endpoint \<Rightarrow> bool" where
  "dereferenceable e =
     (E_EndpointIdentifier e \<noteq> None \<and> E_EndpointType e \<noteq> None \<and> E_EngineName e \<noteq> None \<and>
      (if E_EngineName e = Some ''s3'' then
         (case E_S3Settings e of
            None \<Rightarrow> True
          | Some s \<Rightarrow> CompressionType s \<noteq> None \<and> CsvDelimiter s \<noteq> None \<and> CsvRowDelimiter s \<noteq> None)
       else True))"

subsection \<open>Concrete inputs\<close>

text \<open>An s3 endpoint, for the examples.\<close>

definition exampleS3 :: attributes where
  "exampleS3 =
     \<lparr> certificate_arn = [],
       database_name = [],
       endpoint_arn = ''arn:ep1'',
       endpoint_id = ''ep1'',
       service_access_role = ''role-a'',
       endpoint_type = ''target'',
       engine_name = ''s3'',
       extra_connection_attributes = ''compressionType=NONE'',
       kms_key_arn = [],
       password = [],
       port = 0,
       server_name = [],
       ssl_mode = [],
       tags = Map.empty,
       username = [],
       bucket_name = ''bucket'',
       bucket_folder = ''folder'' \<rparr>"


text \<open>The description of that endpoint as the remote side returns it.\<close>

definition exampleEndpoint :: Endpoint where
  "exampleEndpoint =
     \<lparr> E_CertificateArn = None,
       E_EndpointArn = Some ''arn:ep1'',
       E_EndpointIdentifier = Some ''ep1'',
       E_EndpointType = Some ''TARGET'',
       E_EngineName = Some ''s3'',
       E_DynamoDbSettings = None,
       E_S3Settings = Some
         \<lparr> ServiceAccessRoleArn = Some ''role-a'',
           BucketFolder = Some ''folder'',
           BucketName = Some ''bucket'',
           CompressionType = Some ''NONE'',
           CsvDelimiter = Some '','',
           CsvRowDelimiter = Some defaultCsvRowDelimiter \<rparr>,
       E_DatabaseName = None,
       E_ExtraConnectionAttributes = None,
       E_Port = None,
       E_ServerName = None,
       E_Username = None,
       E_KmsKeyId = None,
       E_SslMode = None \<rparr>"

definition exampleData :: ResourceData where
  "exampleData = \<lparr> resourceId = ''ep1'', state = exampleS3, current = exampleS3 \<rparr>"

text \<open>
  A remote side that denies access to the first two attempts of a create call and
  rejects the third, knows the endpoint, and accepts every other call; it fits five
  attempts into any duration. And one that does not know the endpoint.
\<close>

definition exampleRemote :: conn where
  "exampleRemote =
     \<lparr> CreateEndpoint = (\<lambda>i request.
         if i < 2 then Some (AwsErr ''AccessDeniedFault'' ''denied'')
         else Some (AwsErr ''InvalidParameterValueException'' ''invalid'')),
       DescribeEndpoints = (\<lambda>ident. Inr [exampleEndpoint]),
       ListTagsForResource = (\<lambda>arn. Inr Map.empty),
       ModifyEndpoint = (\<lambda>request. None),
       DeleteEndpoint = (\<lambda>arn. None),
       dmsSetTags = (\<lambda>arn old new. None),
       attemptsWithin = (\<lambda>t. 5) \<rparr>"


text \<open>An update of the s3 endpoint that changes its bucket folder and its tags.\<close>

definition changedData :: ResourceData where
  "changedData =
     \<lparr> resourceId = ''ep1'',
       state = exampleS3,
       current = exampleS3\<lparr>bucket_folder := ''other'', tags := [''k'' \<mapsto> ''v'']\<rparr> \<rparr>"

section \<open>Properties\<close>

subsection \<open>Splitting and containment\<close>

lemma Split_nonempty: "Split s c \<noteq> []"
  by (induction s) (auto split: list.splits)

lemma Split_unfold:
  "Split s c = takeWhile (\<lambda>x. x \<noteq> c) s #
     (if c \<in> set s then Split (tl (dropWhile (\<lambda>x. x \<noteq> c) s)) c else [])"
  by (induction s) (auto split: list.splits simp: Split_nonempty)

text \<open>\<open>Contains\<close> is containment as a contiguous block.\<close>

lemma Contains_iff: "Contains s sub \<longleftrightarrow> (\<exists>p q. s = p @ sub @ q)"
proof (induction s)
  case Nil
  then show ?case by auto
next
  case (Cons a s)
  show ?case
  proof
    assume "Contains (a # s) sub"
    then consider "prefix sub (a # s)" | "Contains s sub" by auto
    then show "\<exists>p q. a # s = p @ sub @ q"
    proof cases
      case 1
      then obtain q where "a # s = sub @ q" by (auto simp: prefix_def)
      then have "a # s = [] @ sub @ q" by simp
      then show ?thesis by blast
    next
      case 2
      with Cons obtain p q where "s = p @ sub @ q" by auto
      then have "a # s = (a # p) @ sub @ q" by simp
      then show ?thesis by blast
    qed
  next
    assume "\<exists>p q. a # s = p @ sub @ q"
    then obtain p q where pq: "a # s = p @ sub @ q" by auto
    show "Contains (a # s) sub"
    proof (cases p)
      case Nil
      with pq have "prefix sub (a # s)" by (simp add: prefix_def)
      then show ?thesis using Contains.simps(2)[of a s sub] by blast
    next
      case (Cons b p')
      with pq have "s = p' @ sub @ q" by simp
      with Cons.IH show ?thesis by auto
    qed
  qed
qed

text \<open>The pieces of a segment split at \<open>=\<close>, and what the loop body does with them.\<close>

lemma Split_eq_segments:
  "Split seg CHR ''='' =
     segKey seg # (if CHR ''='' \<in> set seg then segValue seg # tl (Split (afterFirstEq seg) CHR ''='') else [])"
proof -
  have "hd (Split (afterFirstEq seg) CHR ''='') = segValue seg"
    by (subst Split_unfold) (simp add: segValue_def)
  then have "Split (afterFirstEq seg) CHR ''='' = segValue seg # tl (Split (afterFirstEq seg) CHR ''='')"
    using Split_nonempty[of "afterFirstEq seg" "CHR ''=''"] by (cases "Split (afterFirstEq seg) CHR ''=''") auto
  then show ?thesis
    by (subst Split_unfold) (simp add: segKey_def afterFirstEq_def)
qed

lemma bindsTo_None: "bindsTo seg = None \<longleftrightarrow> \<not> recognized (segKey seg)"
  by (simp add: bindsTo_def recognized_def)

lemma applyElem_eq:
  "applyElem s seg =
     (case bindsTo seg of
        None \<Rightarrow> Inr s
      | Some f \<Rightarrow> if CHR ''='' \<in> set seg then Inr (setField f (segValue seg) s) else Inl IndexOutOfRange)"
  unfolding applyElem_def
  by (subst Split_eq_segments) (simp add: bindsTo_def keyHas_def)

lemma applyElem_cases:
  "applyElem s seg =
     (if recognized (segKey seg) \<and> CHR ''='' \<notin> set seg then Inl IndexOutOfRange
      else Inr (bindSegment s seg))"
  by (auto simp: applyElem_eq bindSegment_def bindsTo_None[symmetric] split: option.splits)

lemma parseElems_eq:
  "parseElems s segs =
     (if \<forall>seg \<in> set segs. recognized (segKey seg) \<longrightarrow> CHR ''='' \<in> set seg
      then Inr (foldl bindSegment s segs) else Inl IndexOutOfRange)"
  by (induction segs arbitrary: s) (auto simp: applyElem_cases)

subsection \<open>The parser of the extra connection attributes\<close>






subsection \<open>The fields after a parse\<close>





lemma segmentsHaveValues_empty: "segmentsHaveValues []"
  by (simp add: segmentsHaveValues_def segKey_def recognized_def keyHas_def ToLower_def)

lemma bindingSegments_empty: "bindingSegments f [] = []"
  by (cases f) (simp_all add: bindingSegments_def bindsTo_def segKey_def keyHas_def ToLower_def)

lemma createdS3Settings_eq:
  "createdS3Settings a =
     (if segmentsHaveValues (extra_connection_attributes a)
      then Inr (foldl bindSegment (createS3Settings a) (Split (extra_connection_attributes a) CHR '';''))
      else Inl IndexOutOfRange)"
  unfolding createdS3Settings_def GetOk_def
  by (auto simp: parseExtraConnectionAttributes_def parseElems_eq segmentsHaveValues_def
      Split_nonempty Let_def bindSegment_def bindsTo_def segKey_def keyHas_def ToLower_def
      recognized_def)


subsection \<open>The defaults of Create\<close>




subsection \<open>Parse, then serialise\<close>














subsection \<open>Read\<close>



text \<open>
  A successful answer that lists no endpoint is another matter: \<open>response.Endpoints[0]\<close>
  is then out of range.
\<close>

lemma read_empty_answer_panics:
  "DescribeEndpoints c (resourceId d) = Inr [] \<Longrightarrow>
   resourceAwsDmsEndpointRead c d =
     (Panicked IndexOutOfRange, d, [CallDescribeEndpoints (resourceId d)])"
  by (simp add: resourceAwsDmsEndpointRead_def)

lemma ToLower_SOURCE: "ToLower ''SOURCE'' = ''source''" by code_simp
lemma ToLower_TARGET: "ToLower ''TARGET'' = ''target''" by code_simp

lemma ToLower_remoteRole: "ToLower (remoteRole r) = localRole r"
  by (cases r) (simp_all add: ToLower_SOURCE ToLower_TARGET)

lemma setState_total:
  "(\<exists>d'. resourceAwsDmsEndpointSetState d e = Inr d') \<longleftrightarrow> dereferenceable e"
  by (auto simp: resourceAwsDmsEndpointSetState_def dereferenceable_def Let_def
      s3ExtraConnectionAttributes_def split: option.splits sum.splits)

lemma setState_endpoint_type:
  "resourceAwsDmsEndpointSetState d e = Inr d' \<Longrightarrow> E_EndpointType e = Some t \<Longrightarrow>
   endpoint_type (current d') = ToLower t"
  by (auto simp: resourceAwsDmsEndpointSetState_def Let_def setStateCommon_def
      split: option.splits sum.splits if_splits)

text \<open>
  C8. Whenever the lookup of a Read finds an endpoint whose description can be
  dereferenced, and the description gives the role in upper case (\<open>SOURCE\<close> or
  \<open>TARGET\<close>), Read does not panic and leaves the role in lower case (\<open>source\<close> or
  \<open>target\<close>) in the state.
\<close>

theorem read_normalizes_role:
  "DescribeEndpoints c (resourceId d) = Inr (e # es) \<Longrightarrow>
   dereferenceable e \<Longrightarrow>
   E_EndpointType e = Some (remoteRole r) \<Longrightarrow>
   (\<forall>p. fst (resourceAwsDmsEndpointRead c d) \<noteq> Panicked p) \<and>
   endpoint_type (current (dataOf (resourceAwsDmsEndpointRead c d))) = localRole r"
proof -
  assume a: "DescribeEndpoints c (resourceId d) = Inr (e # es)" and b: "dereferenceable e"
    and t: "E_EndpointType e = Some (remoteRole r)"
  from b obtain d1 where d1: "resourceAwsDmsEndpointSetState d e = Inr d1"
    using setState_total by blast
  from setState_endpoint_type [OF d1 t] have "endpoint_type (current d1) = localRole r"
    by (simp add: ToLower_remoteRole)
  with a d1 show ?thesis
    by (simp add: resourceAwsDmsEndpointRead_def dataOf_def Let_def split: sum.splits)
qed

theorem read_normalizes_role_witness:
  "endpoint_type (current (dataOf (resourceAwsDmsEndpointRead exampleRemote exampleData))) = ''target'' \<and>
   endpoint_type (current (dataOf (resourceAwsDmsEndpointRead
     (exampleRemote\<lparr>DescribeEndpoints :=
        (\<lambda>ident. Inr [exampleEndpoint\<lparr>E_EndpointType := Some ''SOURCE''\<rparr>])\<rparr>) exampleData))) = ''source''"
proof -
  have a: "DescribeEndpoints exampleRemote (resourceId exampleData) = Inr (exampleEndpoint # [])"
    by (simp add: exampleRemote_def)
  have b: "dereferenceable exampleEndpoint"
    by (simp add: dereferenceable_def exampleEndpoint_def)
  have t: "E_EndpointType exampleEndpoint = Some (remoteRole Target)"
    by (simp add: exampleEndpoint_def)
  have a': "DescribeEndpoints
      (exampleRemote\<lparr>DescribeEndpoints :=
        (\<lambda>ident. Inr [exampleEndpoint\<lparr>E_EndpointType := Some ''SOURCE''\<rparr>])\<rparr>)
      (resourceId exampleData) = Inr (exampleEndpoint\<lparr>E_EndpointType := Some ''SOURCE''\<rparr> # [])"
    by simp
  have b': "dereferenceable (exampleEndpoint\<lparr>E_EndpointType := Some ''SOURCE''\<rparr>)"
    by (simp add: dereferenceable_def exampleEndpoint_def)
  have t': "E_EndpointType (exampleEndpoint\<lparr>E_EndpointType := Some ''SOURCE''\<rparr>) =
      Some (remoteRole Source)"
    by simp
  from read_normalizes_role [OF a b t] read_normalizes_role [OF a' b' t'] show ?thesis
    by simp
qed


subsection \<open>Create and its retries\<close>

lemma RetryLoop_lower: "i \<le> snd (RetryLoop n f i e0)"
proof (induction n arbitrary: i e0)
  case 0
  then show ?case by simp
next
  case (Suc n)
  show ?case
  proof (cases "f i")
    case None
    then show ?thesis by simp
  next
    case (Some r)
    then show ?thesis
      using Suc.IH[of "Suc i"] by (cases r) (auto intro: Suc_leD)
  qed
qed

lemma RetryLoop_upper: "snd (RetryLoop n f i e0) \<le> i + n"
proof (induction n arbitrary: i e0)
  case 0
  then show ?case by simp
next
  case (Suc n)
  show ?case
  proof (cases "f i")
    case None
    then show ?thesis by simp
  next
    case (Some r)
    then show ?thesis
      using Suc.IH[of "Suc i"] by (cases r) auto
  qed
qed

lemma RetryLoop_attempt:
  "i + k < snd (RetryLoop n f i e0) \<longleftrightarrow> k < n \<and> (\<forall>j<k. retryable (f (i + j)))"
proof (induction n arbitrary: i e0 k)
  case 0
  then show ?case by simp
next
  case (Suc n)
  show ?case
  proof (cases k)
    case 0
    have "i < snd (RetryLoop (Suc n) f i e0)"
    proof (cases "f i")
      case None
      then show ?thesis by simp
    next
      case (Some r)
      then show ?thesis
        using RetryLoop_lower[of "Suc i" n f] by (cases r) (auto simp: less_eq_Suc_le)
    qed
    with 0 show ?thesis by simp
  next
    case k: (Suc k')
    show ?thesis
    proof (cases "f i")
      case None
      then have "\<not> retryable (f (i + 0))" by (simp add: retryable_def)
      with None k show ?thesis by auto
    next
      case (Some r)
      show ?thesis
      proof (cases r)
        case (NonRetryableError e)
        with Some have "\<not> retryable (f (i + 0))" by (simp add: retryable_def)
        with Some NonRetryableError k show ?thesis by auto
      next
        case (RetryableError e)
        with Some have r0: "retryable (f i)" by (simp add: retryable_def)
        have "(\<forall>j<Suc k'. retryable (f (i + j))) \<longleftrightarrow> (\<forall>j<k'. retryable (f (Suc i + j)))"
          using r0 by (auto simp: less_Suc_eq_0_disj)
        with Some RetryableError k Suc.IH[of "Suc i" k' e] show ?thesis by simp
      qed
    qed
  qed
qed

lemma RetryLoop_stops:
  "k < n \<Longrightarrow> (\<forall>j<k. retryable (f (i + j))) \<Longrightarrow> \<not> retryable (f (i + k)) \<Longrightarrow>
   RetryLoop n f i e0 =
     ((case f (i + k) of None \<Rightarrow> None | Some (NonRetryableError e) \<Rightarrow> Some e
        | Some (RetryableError e) \<Rightarrow> Some e), i + Suc k)"
proof (induction n arbitrary: i k e0)
  case 0
  then show ?case by simp
next
  case (Suc n)
  show ?case
  proof (cases k)
    case 0
    with Suc.prems show ?thesis
      by (auto simp: retryable_def split: option.splits RetryError.splits)
  next
    case k: (Suc k')
    with Suc.prems have "retryable (f (i + 0))" by blast
    then obtain e where e: "f i = Some (RetryableError e)"
      by (auto simp: retryable_def split: option.splits RetryError.splits)
    have "RetryLoop n f (Suc i) e =
      ((case f (Suc i + k') of None \<Rightarrow> None | Some (NonRetryableError e) \<Rightarrow> Some e
        | Some (RetryableError e) \<Rightarrow> Some e), Suc i + Suc k')"
    proof (rule Suc.IH)
      show "k' < n" using Suc.prems k by simp
      show "\<forall>j<k'. retryable (f (Suc i + j))"
        using Suc.prems(2) k by (metis add_Suc_shift Suc_less_eq)
      show "\<not> retryable (f (Suc i + k'))" using Suc.prems(3) k by simp
    qed
    with e k show ?thesis by simp
  qed
qed

lemma retryable_createAttempt: "retryable (createAttempt a) \<longleftrightarrow> accessDenied a"
  by (auto simp: retryable_def createAttempt_def accessDenied_def split: option.splits error.splits)

lemma createAttempt_fault:
  "\<not> accessDenied (Some err) \<Longrightarrow> createAttempt (Some err) = Some (NonRetryableError err)"
  by (auto simp: createAttempt_def accessDenied_def split: error.splits)

lemma read_calls_no_create: "filter isCreateEndpoint (callsOf (resourceAwsDmsEndpointRead c d)) = []"
  by (auto simp: resourceAwsDmsEndpointRead_def callsOf_def Let_def
      split: sum.splits error.splits list.splits)

lemma read_calls_no_set_tags: "filter isSetTags (callsOf (resourceAwsDmsEndpointRead c d)) = []"
  by (auto simp: resourceAwsDmsEndpointRead_def callsOf_def Let_def
      split: sum.splits error.splits list.splits)

lemma filter_replicate_create:
  "filter isCreateEndpoint (replicate n (CallCreateEndpoint r)) = replicate n (CallCreateEndpoint r)"
  by (induction n) auto

lemma create_call_count:
  "createRequest d = Inr request \<Longrightarrow>
   createCallCount (callsOf (resourceAwsDmsEndpointCreate c d)) =
     snd (Retry (attemptsWithin c createTimeout) (\<lambda>i. createAttempt (CreateEndpoint c i request)))"
proof -
  assume r: "createRequest d = Inr request"
  obtain res n where rn: "Retry (attemptsWithin c createTimeout)
      (\<lambda>i. createAttempt (CreateEndpoint c i request)) = (res, n)"
    by (cases "Retry (attemptsWithin c createTimeout)
      (\<lambda>i. createAttempt (CreateEndpoint c i request))")
  show ?thesis
  proof (cases res)
    case None
    obtain out d' calls where rd:
      "resourceAwsDmsEndpointRead c (d\<lparr>resourceId := endpoint_id (current d)\<rparr>) = (out, d', calls)"
      by (cases "resourceAwsDmsEndpointRead c (d\<lparr>resourceId := endpoint_id (current d)\<rparr>)")
    from read_calls_no_create[of c "d\<lparr>resourceId := endpoint_id (current d)\<rparr>"] rd
    have "filter isCreateEndpoint calls = []" by (simp add: callsOf_def)
    with r rn None rd show ?thesis
      by (simp add: resourceAwsDmsEndpointCreate_def createCallCount_def callsOf_def
          filter_replicate_create)
  next
    case (Some e)
    with r rn show ?thesis
      by (simp add: resourceAwsDmsEndpointCreate_def createCallCount_def callsOf_def
          filter_replicate_create)
  qed
qed

text \<open>
  C5. Create makes its create call at most as often as the ceiling of five minutes
  admits, and makes the first one whenever the ceiling admits any. It makes a further
  attempt after attempt \<open>k\<close> exactly when that attempt was answered with the fault
  \<open>AccessDeniedFault\<close> and the ceiling admits one more. When an attempt is answered
  with any other fault, Create stops there: it makes no further call of any kind and
  returns that fault.
\<close>

theorem create_retries_on_access_denied:
  assumes "createRequest d = Inr request"
  shows "createCallCount (callsOf (resourceAwsDmsEndpointCreate c d))
           \<le> attemptsWithin c (5 * 60 * 1000000000) \<and>
         (0 < createCallCount (callsOf (resourceAwsDmsEndpointCreate c d)) \<longleftrightarrow>
            0 < attemptsWithin c (5 * 60 * 1000000000)) \<and>
         (Suc k < createCallCount (callsOf (resourceAwsDmsEndpointCreate c d)) \<longleftrightarrow>
            k < createCallCount (callsOf (resourceAwsDmsEndpointCreate c d)) \<and>
            accessDenied (CreateEndpoint c k request) \<and>
            Suc k < attemptsWithin c (5 * 60 * 1000000000)) \<and>
         (k < createCallCount (callsOf (resourceAwsDmsEndpointCreate c d)) \<and>
          CreateEndpoint c k request = Some err \<and> \<not> accessDenied (Some err) \<longrightarrow>
            resourceAwsDmsEndpointCreate c d =
              (Failure err, d, replicate (Suc k) (CallCreateEndpoint request)))"
proof -
  define f where "f = (\<lambda>i. createAttempt (CreateEndpoint c i request))"
  define budget where "budget = attemptsWithin c createTimeout"
  define n where "n = createCallCount (callsOf (resourceAwsDmsEndpointCreate c d))"
  have b: "attemptsWithin c (5 * 60 * 1000000000) = budget"
    by (simp add: budget_def createTimeout_def Minute_def)
  have n: "n = snd (RetryLoop budget f 0 (OtherErr ''timeout''))"
    using create_call_count[OF assms, of c] by (simp add: n_def f_def budget_def Retry_def)
  have made: "j < n \<longleftrightarrow> j < budget \<and> (\<forall>i<j. accessDenied (CreateEndpoint c i request))" for j
    using RetryLoop_attempt[of 0 j budget f] by (simp add: n f_def retryable_createAttempt)
  have 1: "n \<le> budget"
    using RetryLoop_upper[of budget f 0] by (simp add: n)
  have 2: "0 < n \<longleftrightarrow> 0 < budget"
    using made[of 0] by simp
  have 3: "Suc k < n \<longleftrightarrow> k < n \<and> accessDenied (CreateEndpoint c k request) \<and> Suc k < budget"
    using made[of "Suc k"] made[of k] by (auto simp: less_Suc_eq)
  have 4: "resourceAwsDmsEndpointCreate c d =
      (Failure err, d, replicate (Suc k) (CallCreateEndpoint request))"
    if h: "k < n \<and> CreateEndpoint c k request = Some err \<and> \<not> accessDenied (Some err)"
  proof -
    from h made[of k] have kb: "k < budget" and before: "\<forall>j<k. retryable (f (0 + j))"
      by (simp_all add: f_def retryable_createAttempt)
    from h have stop: "\<not> retryable (f (0 + k))"
      by (simp add: f_def retryable_createAttempt)
    from h have fk: "f k = Some (NonRetryableError err)"
      by (simp add: f_def createAttempt_fault)
    from RetryLoop_stops[OF kb before stop, of "OtherErr ''timeout''"] fk
    have "Retry budget f = (Some err, Suc k)"
      by (simp add: Retry_def)
    with assms show ?thesis
      by (simp add: resourceAwsDmsEndpointCreate_def f_def budget_def)
  qed
  from 1 2 3 4 show ?thesis
    unfolding b n_def by blast
qed

lemma createRequest_exampleData: "\<exists>request. createRequest exampleData = Inr request"
proof -
  have "segmentsHaveValues ''compressionType=NONE''" by code_simp
  then show ?thesis
    by (simp add: createRequest_def createdS3Settings_eq exampleData_def exampleS3_def Let_def)
qed

theorem create_retries_on_access_denied_witness:
  "fst (resourceAwsDmsEndpointCreate exampleRemote exampleData) =
     Failure (AwsErr ''InvalidParameterValueException'' ''invalid'') \<and>
   createCallCount (callsOf (resourceAwsDmsEndpointCreate exampleRemote exampleData)) = 3 \<and>
   length (callsOf (resourceAwsDmsEndpointCreate exampleRemote exampleData)) = 3"
proof -
  obtain request where r: "createRequest exampleData = Inr request"
    using createRequest_exampleData by blast
  let ?n = "createCallCount (callsOf (resourceAwsDmsEndpointCreate exampleRemote exampleData))"
  have budget: "attemptsWithin exampleRemote (5 * 60 * 1000000000) = 5"
    by (simp add: exampleRemote_def)
  have a0: "accessDenied (CreateEndpoint exampleRemote 0 request)"
    by (simp add: exampleRemote_def accessDenied_def)
  have a1: "accessDenied (CreateEndpoint exampleRemote 1 request)"
    by (simp add: exampleRemote_def accessDenied_def)
  have a2: "CreateEndpoint exampleRemote 2 request =
      Some (AwsErr ''InvalidParameterValueException'' ''invalid'')"
    by (simp add: exampleRemote_def)
  have na: "\<not> accessDenied (Some (AwsErr ''InvalidParameterValueException'' ''invalid''))"
    by (simp add: accessDenied_def)
  from create_retries_on_access_denied [OF r, of exampleRemote 0] budget a0
  have n1: "Suc 0 < ?n" by simp
  with create_retries_on_access_denied [OF r, of exampleRemote 1] budget a1
  have n2: "2 < ?n" by (simp add: numeral_2_eq_2)
  with create_retries_on_access_denied [OF r, of exampleRemote 2
      "AwsErr ''InvalidParameterValueException'' ''invalid''"] a2 na
  have "resourceAwsDmsEndpointCreate exampleRemote exampleData =
      (Failure (AwsErr ''InvalidParameterValueException'' ''invalid''), exampleData,
       replicate (Suc 2) (CallCreateEndpoint request))"
    by blast
  then show ?thesis
    by (simp add: callsOf_def createCallCount_def filter_replicate_create)
qed

subsection \<open>Update\<close>

text \<open>
  C9. An Update between two equal sides (no attribute differs, the tags included) makes
  no remote call, succeeds, and leaves the resource data as it was.
\<close>

theorem update_without_changes:
  "state d = current d \<Longrightarrow> resourceAwsDmsEndpointUpdate c d = (Success, d, [])"
  by (simp add: resourceAwsDmsEndpointUpdate_def updateEngine_def updateHead_def updateTail_def
      updateDone_def setIf_def HasChange_def s3SettingsChanged_def Let_def)

theorem update_without_changes_witness:
  "resourceAwsDmsEndpointUpdate exampleRemote exampleData = (Success, exampleData, [])"
proof -
  have "state exampleData = current exampleData"
    by (simp add: exampleData_def)
  from update_without_changes [OF this] show ?thesis .
qed

lemma updateDone_set_tags:
  "filter isSetTags (callsOf (updateDone c d rh before)) = filter isSetTags before"
proof -
  obtain out d' calls where rd: "resourceAwsDmsEndpointRead c d = (out, d', calls)"
    by (cases "resourceAwsDmsEndpointRead c d")
  with read_calls_no_set_tags[of c d] have "filter isSetTags calls = []"
    by (simp add: callsOf_def)
  with rd show ?thesis
    by (auto simp: updateDone_def callsOf_def split: option.splits)
qed

text \<open>
  The s3 branch, once one of its attributes changed, leaves by \<open>goto DONE\<close>, past the
  test of the tags: no tag synchronisation is called, whatever the tags. On every other
  path a change of the tags is synchronised first.
\<close>

lemma update_s3_jump_no_tag_sync:
  "engine_name (current d) = ''s3'' \<Longrightarrow> s3SettingsChanged d \<Longrightarrow>
   filter isSetTags (callsOf (resourceAwsDmsEndpointUpdate c d)) = []"
  by (auto simp: resourceAwsDmsEndpointUpdate_def updateEngine_def s3SettingsChanged_def Let_def
      updateDone_set_tags split: sum.splits) (simp_all add: callsOf_def)

lemma update_otherwise_syncs_tags:
  "\<not> (engine_name (current d) = ''s3'' \<and> s3SettingsChanged d) \<Longrightarrow> HasChange d tags \<Longrightarrow>
   take 1 (callsOf (resourceAwsDmsEndpointUpdate c d)) =
     [CallSetTags (endpoint_arn (current d)) (tags (state d)) (tags (current d))]"
  by (auto simp: resourceAwsDmsEndpointUpdate_def updateEngine_def s3SettingsChanged_def Let_def
      updateDone_def callsOf_def split: sum.splits option.splits prod.splits)

text \<open>
  C1 does not hold of the code. For the s3 endpoint whose bucket folder and tags both
  changed, Update calls no tag synchronisation, whatever the remote side answers.
\<close>

theorem update_s3_skips_tag_sync:
  "HasChange changedData tags \<and> HasChange changedData bucket_folder \<and>
   engine_name (current changedData) = ''s3'' \<and>
   filter isSetTags (callsOf (resourceAwsDmsEndpointUpdate c changedData)) = []"
proof -
  have "Map.empty \<noteq> [''k'' \<mapsto> ''v'']"
    by (metis map_upd_nonempty)
  then have t: "HasChange changedData tags"
    by (simp add: HasChange_def changedData_def exampleS3_def)
  have f: "HasChange changedData bucket_folder"
    by (simp add: HasChange_def changedData_def exampleS3_def)
  have e: "engine_name (current changedData) = ''s3''"
    by (simp add: changedData_def exampleS3_def)
  from f have "s3SettingsChanged changedData"
    by (simp add: s3SettingsChanged_def)
  from update_s3_jump_no_tag_sync [OF e this] t f e show ?thesis
    by simp
qed

lemma parse_example: "parseExtraConnectionAttributes (updateS3Settings a) ''compressionType=NONE'' =
    Inr ((updateS3Settings a)\<lparr>CompressionType := Some ''NONE''\<rparr>)"
proof -
  have a: "segmentsHaveValues ''compressionType=NONE''" by code_simp
  have b: "Split ''compressionType=NONE'' CHR '';'' = [''compressionType=NONE'']" by code_simp
  have c: "bindsTo ''compressionType=NONE'' = Some FCompressionType" by code_simp
  have d: "segValue ''compressionType=NONE'' = ''NONE''" by code_simp
  show ?thesis
    by (simp add: parseExtraConnectionAttributes_def parseElems_eq Split_nonempty Let_def
        a[unfolded segmentsHaveValues_def] b bindSegment_def c d)
qed

text \<open>
  C3 does not hold of the code. For the s3 endpoint whose bucket folder changed and whose
  extra connection attributes are \<open>compressionType=NONE\<close>, the modify request Update
  sends carries the access role, the bucket name, the bucket folder and the compression
  type, and neither csvDelimiter nor csvRowDelimiter: Update starts from settings
  without the defaults that Create starts from.
\<close>

theorem update_s3_request_lacks_defaults:
  "take 1 (callsOf (resourceAwsDmsEndpointUpdate c changedData)) =
     [CallModifyEndpoint ((modifyBase (current changedData))
        \<lparr>M_S3Settings := Some
           \<lparr> ServiceAccessRoleArn = Some ''role-a'',
             BucketFolder = Some ''other'',
             BucketName = Some ''bucket'',
             CompressionType = Some ''NONE'',
             CsvDelimiter = None,
             CsvRowDelimiter = None \<rparr>\<rparr>)]"
proof -
  have p: "parseExtraConnectionAttributes (updateS3Settings (current changedData))
      (extra_connection_attributes (current changedData)) =
    Inr ((updateS3Settings (current changedData))\<lparr>CompressionType := Some ''NONE''\<rparr>)"
    using parse_example[of "current changedData"] by (simp add: changedData_def exampleS3_def)
  have h: "updateHead changedData = (modifyBase (current changedData), False)"
    by (simp add: updateHead_def setIf_def HasChange_def changedData_def exampleS3_def Let_def)
  have e: "updateEngine changedData (updateHead changedData) =
      Inr (((modifyBase (current changedData))
        \<lparr>M_S3Settings := Some ((updateS3Settings (current changedData))\<lparr>CompressionType := Some ''NONE''\<rparr>)\<rparr>,
        True), True)"
  proof -
    have en: "engine_name (current changedData) = ''s3''"
      by (simp add: changedData_def exampleS3_def)
    have hc: "s3SettingsChanged changedData"
      by (simp add: s3SettingsChanged_def HasChange_def changedData_def exampleS3_def)
    show ?thesis
      by (simp add: updateEngine_def h Let_def en hc p)
  qed
  have s: "(updateS3Settings (current changedData))\<lparr>CompressionType := Some ''NONE''\<rparr> =
      \<lparr> ServiceAccessRoleArn = Some ''role-a'',
             BucketFolder = Some ''other'',
             BucketName = Some ''bucket'',
             CompressionType = Some ''NONE'',
             CsvDelimiter = None,
             CsvRowDelimiter = None \<rparr>"
    by (simp add: updateS3Settings_def changedData_def exampleS3_def)
  show ?thesis
    unfolding resourceAwsDmsEndpointUpdate_def e s[symmetric]
    by (auto simp: updateDone_def callsOf_def split: option.splits prod.splits)
qed

end
